theory Spec2Isabelle
  imports Complex_Main
begin

section \<open>Data model (inventory/models.py)\<close>

text \<open>
  Products and locations are referenced by their primary keys. Quantities are Python
  \<open>Decimal\<close> values; they are modelled as exact rationals, so addition, subtraction
  and comparison are the exact ones of \<open>Decimal\<close>. Timestamps are opaque.
\<close>

type_synonym product_id = nat
type_synonym location_id = nat
type_synonym decimal = rat
type_synonym timestamp = int

text \<open>
  \<open>Decimal.quantize(Decimal("0.01"))\<close> in the default context, whose rounding mode is
  ROUND_HALF_EVEN: the nearest multiple of one hundredth, a tie going to the even one. The
  view calls it on its results; a value saved into a \<open>DecimalField\<close> with
  \<open>decimal_places=2\<close> is prepared for the column the same way.
\<close>

definition round_half_even :: "rat \<Rightarrow> int" where
  "round_half_even x =
     (let f = \<lfloor>x\<rfloor>; r = x - of_int f
      in if r < 1 / 2 then f else if 1 / 2 < r then f + 1 else if even f then f else f + 1)"

definition quantize :: "decimal \<Rightarrow> decimal" where
  "quantize x = of_int (round_half_even (x * 100)) / 100"

text \<open>The three values of \<open>StockMove.TYPES\<close>; the \<open>type\<close> argument is a string.\<close>

definition INBOUND :: string where "INBOUND = ''INBOUND''"
definition OUTBOUND :: string where "OUTBOUND = ''OUTBOUND''"
definition TRANSFER :: string where "TRANSFER = ''TRANSFER''"

text \<open>\<open>StockMove\<close>: one recorded single movement.\<close>

record stock_move =
  move_id :: nat
  move_type :: string
  move_product :: product_id
  move_qty :: decimal
  move_from :: "location_id option"
  move_to :: "location_id option"
  move_timestamp :: timestamp

text \<open>
  \<open>StockMoveBatch\<close> with its \<open>StockMoveLine\<close> rows. The lines reference their batch
  with \<open>on_delete=CASCADE\<close> and are read through \<open>batch.lines\<close> in primary-key order,
  so they are kept inside the batch record, in insertion order.
\<close>

record stock_move_batch =
  batch_id :: nat
  batch_type :: string
  batch_from :: "location_id option"
  batch_to :: "location_id option"
  batch_timestamp :: timestamp
  batch_lines :: "(product_id \<times> decimal) list"

text \<open>
  The database: the \<open>InventoryLevel\<close> table (rows keyed by the pair
  (product, location), \<open>unique_together\<close>), the \<open>StockMove\<close> table, the
  \<open>StockMoveBatch\<close> table and the two primary-key sequences.
\<close>

record db =
  levels :: "((product_id \<times> location_id) \<times> decimal) list"
  stock_moves :: "stock_move list"
  batches :: "stock_move_batch list"
  next_move_id :: nat
  next_batch_id :: nat

definition empty_db :: db where
  "empty_db = \<lparr>levels = [], stock_moves = [], batches = [], next_move_id = 1, next_batch_id = 1\<rparr>"

text \<open>
  Every \<open>raise\<close> of inventory/services/stock.py, one constructor per message text,
  and the two exceptions of Python and of the database that its loops can meet.
\<close>

datatype error =
    InvalidQuantity              \<comment> \<open>Quantity must be positive.\<close>
  | MissingDestination           \<comment> \<open>INBOUND moves require a destination (to_location).\<close>
  | MissingSource                \<comment> \<open>OUTBOUND moves require a source (from_location).\<close>
  | InsufficientStock            \<comment> \<open>Insufficient stock at source location.\<close>
  | MissingEndpoint              \<comment> \<open>TRANSFER moves require both source and destination.\<close>
  | SameLocation                 \<comment> \<open>Source and destination locations must differ.\<close>
  | InsufficientStockTransfer    \<comment> \<open>Insufficient stock at source location for transfer.\<close>
  | UnknownKind                  \<comment> \<open>Unknown move type.\<close>
  | ReverseMissingDestination    \<comment> \<open>Cannot reverse: missing destination.\<close>
  | ReversalWouldGoNegative      \<comment> \<open>Cannot reverse: would go negative at destination.\<close>
  | ReverseMissingSource         \<comment> \<open>Cannot reverse: missing source.\<close>
  | ReverseMissingLocations      \<comment> \<open>Cannot reverse: missing locations.\<close>
  | ReversalInsufficientAtDestination  \<comment> \<open>Cannot reverse: insufficient stock at destination.\<close>
  | InvalidLine                  \<comment> \<open>Line quantity must be positive.\<close>
  | BatchMissingDestination      \<comment> \<open>INBOUND requires a destination (to_location).\<close>
  | BatchMissingSource           \<comment> \<open>OUTBOUND requires a source (from_location).\<close>
  | BatchMissingEndpoint         \<comment> \<open>TRANSFER requires both source and destination.\<close>
  | EmptyBatch                   \<comment> \<open>At least one line is required.\<close>
  | BatchInsufficientStock product_id  \<comment> \<open>Insufficient stock at source for product id=pid.\<close>
  | KeyError                     \<comment> \<open>a dict lookup of a key that was never stored\<close>
  | IntegrityError               \<comment> \<open>the database refuses a level row without a location\<close>

section \<open>The ledger store\<close>

text \<open>
  The stored quantity of a balance row; a pair that has no row yet reads as zero, the
  value \<open>get_or_create\<close> gives a new row.
\<close>

definition on_hand :: "db \<Rightarrow> product_id \<times> location_id \<Rightarrow> decimal" where
  "on_hand s k = (case map_of (levels s) k of Some v \<Rightarrow> v | None \<Rightarrow> 0)"

text \<open>
  An \<open>InventoryLevel\<close> object in memory: the key of its row and the \<open>on_hand\<close>
  attribute as last loaded.
\<close>

type_synonym level = "(product_id \<times> location_id) \<times> decimal"

text \<open>
  \<open>_get_level_for_update\<close>: \<open>select_for_update().get_or_create\<close> with
  \<open>defaults={"on_hand": Decimal("0")}\<close>.
\<close>

definition get_level_for_update :: "product_id \<Rightarrow> location_id \<Rightarrow> db \<Rightarrow> level \<times> db" where
  "get_level_for_update product location s =
     (case map_of (levels s) (product, location) of
        Some v \<Rightarrow> (((product, location), v), s)
      | None \<Rightarrow> (((product, location), 0), s\<lparr>levels := levels s @ [((product, location), 0)]\<rparr>))"

definition refresh_from_db :: "level \<Rightarrow> db \<Rightarrow> level" where
  "refresh_from_db lvl s = (fst lvl, on_hand s (fst lvl))"

text \<open>
  \<open>lvl.on_hand = F("on_hand") + d; lvl.save(update_fields=["on_hand"])\<close>: an UPDATE of
  the object's row, relative to the stored value (the loaded attribute is not used).
  \<open>F("on_hand") - q\<close> is the delta \<open>- q\<close>. The new value is kept exact; the column, a
  \<open>DecimalField\<close> with \<open>decimal_places=2\<close>, holds it exactly when the balance and the
  delta have at most two decimal places.
\<close>

definition save_on_hand :: "level \<Rightarrow> decimal \<Rightarrow> db \<Rightarrow> db" where
  "save_on_hand lvl d s =
     s\<lparr>levels := map (\<lambda>(k, v). if k = fst lvl then (k, v + d) else (k, v)) (levels s)\<rparr>"

section \<open>Single movements (inventory/services/stock.py)\<close>

text \<open>
  \<open>StockMove.objects.create\<close>: the new row takes the next primary key.
\<close>

definition create_move ::
  "string \<Rightarrow> product_id \<Rightarrow> decimal \<Rightarrow> location_id option \<Rightarrow> location_id option
    \<Rightarrow> timestamp \<Rightarrow> db \<Rightarrow> db \<times> stock_move" where
  "create_move ty product qty from_location to_location ts s =
     (let move = \<lparr>move_id = next_move_id s, move_type = ty, move_product = product,
                   move_qty = qty, move_from = from_location, move_to = to_location,
                   move_timestamp = ts\<rparr>
      in (s\<lparr>stock_moves := stock_moves s @ [move], next_move_id := Suc (next_move_id s)\<rparr>, move))"

text \<open>
  \<open>apply_stock_move\<close>. The function runs under \<open>@transaction.atomic\<close>: a raise rolls
  every write back, so a failure is \<open>Inl\<close> of the error and carries no database, and the
  caller continues with the database it passed in.
\<close>

definition apply_stock_move ::
  "string \<Rightarrow> product_id \<Rightarrow> decimal option \<Rightarrow> location_id option \<Rightarrow> location_id option
    \<Rightarrow> timestamp \<Rightarrow> db \<Rightarrow> error + (db \<times> stock_move)" where
  "apply_stock_move ty product qty_opt from_location to_location ts s =
     (case qty_opt of
        None \<Rightarrow> Inl InvalidQuantity
      | Some qty \<Rightarrow>
        if qty \<le> 0 then Inl InvalidQuantity
        else if ty = INBOUND then
          (case to_location of
             None \<Rightarrow> Inl MissingDestination
           | Some t \<Rightarrow>
               let (to_lvl, s1) = get_level_for_update product t s;
                   s2 = save_on_hand to_lvl qty s1
               in Inr (create_move ty product qty from_location to_location ts s2))
        else if ty = OUTBOUND then
          (case from_location of
             None \<Rightarrow> Inl MissingSource
           | Some f \<Rightarrow>
               let (from_lvl, s1) = get_level_for_update product f s;
                   from_lvl = refresh_from_db from_lvl s1
               in if snd from_lvl < qty then Inl InsufficientStock
                  else let s2 = save_on_hand from_lvl (- qty) s1
                       in Inr (create_move ty product qty from_location to_location ts s2))
        else if ty = TRANSFER then
          (case (from_location, to_location) of
             (Some f, Some t) \<Rightarrow>
               if f = t then Inl SameLocation
               else
                 let (from_lvl, s1) = get_level_for_update product f s;
                     (to_lvl, s2) = get_level_for_update product t s1;
                     from_lvl = refresh_from_db from_lvl s2
                 in if snd from_lvl < qty then Inl InsufficientStockTransfer
                    else let s3 = save_on_hand from_lvl (- qty) s2;
                             s4 = save_on_hand to_lvl qty s3
                         in Inr (create_move ty product qty from_location to_location ts s4)
           | _ \<Rightarrow> Inl MissingEndpoint)
        else Inl UnknownKind)"

text \<open>\<open>move.delete()\<close>: the row with the move's primary key is removed.\<close>

definition delete_move :: "stock_move \<Rightarrow> db \<Rightarrow> db" where
  "delete_move move s = s\<lparr>stock_moves := filter (\<lambda>m. move_id m \<noteq> move_id move) (stock_moves s)\<rparr>"

text \<open>\<open>reverse_stock_move\<close>, also under \<open>@transaction.atomic\<close>.\<close>

definition reverse_stock_move :: "stock_move \<Rightarrow> db \<Rightarrow> error + db" where
  "reverse_stock_move move s =
     (let qty = move_qty move; product = move_product move in
      if move_type move = INBOUND then
        (case move_to move of
           None \<Rightarrow> Inl ReverseMissingDestination
         | Some t \<Rightarrow>
             let (to_lvl, s1) = get_level_for_update product t s;
                 to_lvl = refresh_from_db to_lvl s1
             in if snd to_lvl < qty then Inl ReversalWouldGoNegative
                else Inr (delete_move move (save_on_hand to_lvl (- qty) s1)))
      else if move_type move = OUTBOUND then
        (case move_from move of
           None \<Rightarrow> Inl ReverseMissingSource
         | Some f \<Rightarrow>
             let (from_lvl, s1) = get_level_for_update product f s
             in Inr (delete_move move (save_on_hand from_lvl qty s1)))
      else if move_type move = TRANSFER then
        (case (move_from move, move_to move) of
           (Some f, Some t) \<Rightarrow>
             let (to_lvl, s1) = get_level_for_update product t s;
                 (from_lvl, s2) = get_level_for_update product f s1;
                 to_lvl = refresh_from_db to_lvl s2
             in if snd to_lvl < qty then Inl ReversalInsufficientAtDestination
                else let s3 = save_on_hand to_lvl (- qty) s2;
                         s4 = save_on_hand from_lvl qty s3
                     in Inr (delete_move move s4)
         | _ \<Rightarrow> Inl ReverseMissingLocations)
      else Inl UnknownKind)"

section \<open>Batches (inventory/services/stock.py)\<close>

text \<open>
  \<open>totals[pid] = totals[pid] + qty\<close> on a \<open>defaultdict(Decimal)\<close>: a key that is
  missing is read as \<open>Decimal()\<close>, zero, and inserted last; a dict iterates in insertion
  order.
\<close>

fun add_total :: "product_id \<Rightarrow> decimal \<Rightarrow> (product_id \<times> decimal) list \<Rightarrow> (product_id \<times> decimal) list" where
  "add_total pid qty [] = [(pid, 0 + qty)]"
| "add_total pid qty ((k, v) # totals) =
     (if k = pid then (k, v + qty) # totals else (k, v) # add_total pid qty totals)"

text \<open>
  \<open>_group_lines_by_product\<close>: a line is the pair of its product's id and its quantity;
  the loop raises at the first line whose quantity is not positive.
\<close>

fun group_lines_loop ::
  "(product_id \<times> decimal) list \<Rightarrow> (product_id \<times> decimal) list \<Rightarrow> error + (product_id \<times> decimal) list" where
  "group_lines_loop [] totals = Inr totals"
| "group_lines_loop ((pid, qty) # lines) totals =
     (if qty \<le> 0 then Inl InvalidLine else group_lines_loop lines (add_total pid qty totals))"

definition group_lines_by_product ::
  "(product_id \<times> decimal) list \<Rightarrow> error + (product_id \<times> decimal) list" where
  "group_lines_by_product lines = group_lines_loop lines []"

text \<open>\<open>for pid, q in totals.items(): body\<close>, where the body may raise.\<close>

fun for_items ::
  "(product_id \<times> decimal) list \<Rightarrow> (product_id \<Rightarrow> decimal \<Rightarrow> db \<Rightarrow> error + db) \<Rightarrow> db \<Rightarrow> error + db" where
  "for_items [] body s = Inr s"
| "for_items ((pid, q) # totals) body s =
     (case body pid q s of Inl e \<Rightarrow> Inl e | Inr s1 \<Rightarrow> for_items totals body s1)"

text \<open>
  The nested \<open>lock_level\<close> of \<open>apply_stock_batch_move\<close>, and the loop
  \<open>for pid in totals: levels[pid] = lock_level(pid, loc)\<close> that fills a dict of level
  objects. The products of the lines have been resolved by the caller.
\<close>

definition lock_level :: "product_id \<Rightarrow> location_id \<Rightarrow> db \<Rightarrow> level \<times> db" where
  "lock_level prod_id loc s =
     (let (lvl, s1) = get_level_for_update prod_id loc s in (refresh_from_db lvl s1, s1))"

fun lock_levels :: "product_id list \<Rightarrow> location_id \<Rightarrow> db \<Rightarrow> (product_id \<times> level) list \<times> db" where
  "lock_levels [] loc s = ([], s)"
| "lock_levels (pid # pids) loc s =
     (let (lvl, s1) = lock_level pid loc s;
          (lvls, s2) = lock_levels pids loc s1
      in ((pid, lvl) # lvls, s2))"

text \<open>The loop bodies over \<open>totals.items()\<close>; \<open>lvls\<close> is the dict of level objects.\<close>

definition check_source_level :: "(product_id \<times> level) list \<Rightarrow> product_id \<Rightarrow> decimal \<Rightarrow> db \<Rightarrow> error + db" where
  "check_source_level lvls pid q s =
     (case map_of lvls pid of
        None \<Rightarrow> Inl KeyError
      | Some lvl \<Rightarrow> if snd lvl < q then Inl (BatchInsufficientStock pid) else Inr s)"

definition add_to_level :: "(product_id \<times> level) list \<Rightarrow> product_id \<Rightarrow> decimal \<Rightarrow> db \<Rightarrow> error + db" where
  "add_to_level lvls pid q s =
     (case map_of lvls pid of
        None \<Rightarrow> Inl KeyError
      | Some lvl \<Rightarrow> Inr (save_on_hand lvl q s))"

definition subtract_from_level :: "(product_id \<times> level) list \<Rightarrow> product_id \<Rightarrow> decimal \<Rightarrow> db \<Rightarrow> error + db" where
  "subtract_from_level lvls pid q s =
     (case map_of lvls pid of
        None \<Rightarrow> Inl KeyError
      | Some lvl \<Rightarrow> Inr (save_on_hand lvl (- q) s))"

text \<open>Subtract at the object of the first dict, then add at the object of the second.\<close>

definition move_between_levels ::
  "(product_id \<times> level) list \<Rightarrow> (product_id \<times> level) list \<Rightarrow> product_id \<Rightarrow> decimal \<Rightarrow> db \<Rightarrow> error + db" where
  "move_between_levels lvls_sub lvls_add pid q s =
     (case map_of lvls_sub pid of
        None \<Rightarrow> Inl KeyError
      | Some a \<Rightarrow>
          (case map_of lvls_add pid of
             None \<Rightarrow> Inl KeyError
           | Some b \<Rightarrow> Inr (save_on_hand b q (save_on_hand a (- q) s))))"

text \<open>
  \<open>StockMoveBatch.objects.create\<close> and \<open>StockMoveLine.objects.bulk_create\<close>: one line
  per item of \<open>totals\<close>, in its order. \<open>StockMoveLine.qty\<close> is a
  \<open>DecimalField\<close> with \<open>decimal_places=2\<close>, and the quantities of a batch come from
  unvalidated strings: the row keeps the total rounded to two decimals.
\<close>

definition create_batch ::
  "string \<Rightarrow> location_id option \<Rightarrow> location_id option \<Rightarrow> timestamp
    \<Rightarrow> (product_id \<times> decimal) list \<Rightarrow> db \<Rightarrow> db \<times> stock_move_batch" where
  "create_batch ty from_location to_location ts totals s =
     (let batch = \<lparr>batch_id = next_batch_id s, batch_type = ty, batch_from = from_location,
                    batch_to = to_location, batch_timestamp = ts,
                    batch_lines = map (\<lambda>(pid, q). (pid, quantize q)) totals\<rparr>
      in (s\<lparr>batches := batches s @ [batch], next_batch_id := Suc (next_batch_id s)\<rparr>, batch))"

text \<open>
  \<open>apply_stock_batch_move\<close>, under \<open>@transaction.atomic\<close>. Where a location is
  dereferenced with \<open>the\<close>, the checks at the top have excluded \<open>None\<close> for that type.
\<close>

definition apply_stock_batch_move ::
  "string \<Rightarrow> location_id option \<Rightarrow> location_id option \<Rightarrow> timestamp
    \<Rightarrow> (product_id \<times> decimal) list \<Rightarrow> db \<Rightarrow> error + (db \<times> stock_move_batch)" where
  "apply_stock_batch_move ty from_location to_location ts lines s =
     (if ty \<noteq> INBOUND \<and> ty \<noteq> OUTBOUND \<and> ty \<noteq> TRANSFER then Inl UnknownKind
      else if ty = INBOUND \<and> to_location = None then Inl BatchMissingDestination
      else if ty = OUTBOUND \<and> from_location = None then Inl BatchMissingSource
      else if ty = TRANSFER \<and> (from_location = None \<or> to_location = None) then Inl BatchMissingEndpoint
      else if ty = TRANSFER \<and> from_location = to_location then Inl SameLocation
      else if lines = [] then Inl EmptyBatch
      else
        (case group_lines_by_product lines of
           Inl e \<Rightarrow> Inl e
         | Inr totals \<Rightarrow>
             let (levels_src, s1) =
                   (if ty = OUTBOUND \<or> ty = TRANSFER
                    then lock_levels (map fst totals) (the from_location) s else ([], s));
                 (levels_dst, s2) =
                   (if ty = INBOUND \<or> ty = TRANSFER
                    then lock_levels (map fst totals) (the to_location) s1 else ([], s1))
             in (case (if ty = OUTBOUND \<or> ty = TRANSFER
                       then for_items totals (check_source_level levels_src) s2 else Inr s2) of
                   Inl e \<Rightarrow> Inl e
                 | Inr s3 \<Rightarrow>
                     (case (if ty = INBOUND then for_items totals (add_to_level levels_dst) s3
                            else if ty = OUTBOUND then for_items totals (subtract_from_level levels_src) s3
                            else for_items totals (move_between_levels levels_src levels_dst) s3) of
                        Inl e \<Rightarrow> Inl e
                      | Inr s4 \<Rightarrow> Inr (create_batch ty from_location to_location ts totals s4)))))"

text \<open>\<open>batch.delete()\<close>: the batch row goes, and its lines with it.\<close>

definition delete_batch :: "stock_move_batch \<Rightarrow> db \<Rightarrow> db" where
  "delete_batch batch s = s\<lparr>batches := filter (\<lambda>b. batch_id b \<noteq> batch_id batch) (batches s)\<rparr>"

text \<open>
  The locking loops of \<open>reverse_stock_batch_move\<close>. The product passed to
  \<open>_get_level_for_update\<close> is \<open>ln.product if (ln := lines[0]) else Product.objects.get(id=pid)\<close>:
  a model instance is always true, so it is the product of the first line, for every
  \<open>pid\<close>. \<open>first_product\<close> is that product.
\<close>

fun reverse_levels ::
  "product_id list \<Rightarrow> product_id \<Rightarrow> location_id \<Rightarrow> db \<Rightarrow> (product_id \<times> level) list \<times> db" where
  "reverse_levels [] first_product loc s = ([], s)"
| "reverse_levels (pid # pids) first_product loc s =
     (let (lvl, s1) = get_level_for_update first_product loc s;
          (lvls, s2) = reverse_levels pids first_product loc s1
      in ((pid, lvl) # lvls, s2))"

fun reverse_levels_transfer ::
  "product_id list \<Rightarrow> product_id \<Rightarrow> location_id \<Rightarrow> location_id \<Rightarrow> db
    \<Rightarrow> ((product_id \<times> level) list \<times> (product_id \<times> level) list) \<times> db" where
  "reverse_levels_transfer [] first_product src dst s = (([], []), s)"
| "reverse_levels_transfer (pid # pids) first_product src dst s =
     (let (src_lvl, s1) = get_level_for_update first_product src s;
          (dst_lvl, s2) = get_level_for_update first_product dst s1;
          ((srcs, dsts), s3) = reverse_levels_transfer pids first_product src dst s2
      in (((pid, src_lvl) # srcs, (pid, dst_lvl) # dsts), s3))"

text \<open>\<open>lvl.refresh_from_db(); if lvl.on_hand < q: raise StockError(...)\<close>.\<close>

definition check_level_refreshed ::
  "error \<Rightarrow> (product_id \<times> level) list \<Rightarrow> product_id \<Rightarrow> decimal \<Rightarrow> db \<Rightarrow> error + db" where
  "check_level_refreshed err lvls pid q s =
     (case map_of lvls pid of
        None \<Rightarrow> Inl KeyError
      | Some lvl \<Rightarrow> if snd (refresh_from_db lvl s) < q then Inl err else Inr s)"

text \<open>
  \<open>reverse_stock_batch_move\<close>, under \<open>@transaction.atomic\<close>. The totals are summed
  again from the lines, without the positivity check. The last branch takes every type
  that is neither INBOUND nor OUTBOUND.
\<close>

definition reverse_stock_batch_move :: "stock_move_batch \<Rightarrow> db \<Rightarrow> error + db" where
  "reverse_stock_batch_move batch s =
     (case batch_lines batch of
        [] \<Rightarrow> Inr (delete_batch batch s)
      | ln0 # _ \<Rightarrow>
          let totals = fold (\<lambda>(pid, qty) totals. add_total pid qty totals) (batch_lines batch) [];
              first_product = fst ln0
          in if batch_type batch = INBOUND then
               (case batch_to batch of
                  None \<Rightarrow> Inl IntegrityError
                | Some t \<Rightarrow>
                    let (levels_dst, s1) = reverse_levels (map fst totals) first_product t s
                    in (case for_items totals (check_level_refreshed ReversalWouldGoNegative levels_dst) s1 of
                          Inl e \<Rightarrow> Inl e
                        | Inr s2 \<Rightarrow>
                            (case for_items totals (subtract_from_level levels_dst) s2 of
                               Inl e \<Rightarrow> Inl e
                             | Inr s3 \<Rightarrow> Inr (delete_batch batch s3))))
             else if batch_type batch = OUTBOUND then
               (case batch_from batch of
                  None \<Rightarrow> Inl IntegrityError
                | Some f \<Rightarrow>
                    let (levels_src, s1) = reverse_levels (map fst totals) first_product f s
                    in (case for_items totals (add_to_level levels_src) s1 of
                          Inl e \<Rightarrow> Inl e
                        | Inr s2 \<Rightarrow> Inr (delete_batch batch s2)))
             else
               (case (batch_from batch, batch_to batch) of
                  (Some f, Some t) \<Rightarrow>
                    let ((levels_src, levels_dst), s1) =
                          reverse_levels_transfer (map fst totals) first_product f t s
                    in (case for_items totals (check_level_refreshed ReversalInsufficientAtDestination levels_dst) s1 of
                          Inl e \<Rightarrow> Inl e
                        | Inr s2 \<Rightarrow>
                            (case for_items totals (move_between_levels levels_dst levels_src) s2 of
                               Inl e \<Rightarrow> Inl e
                             | Inr s3 \<Rightarrow> Inr (delete_batch batch s3)))
                | _ \<Rightarrow> Inl IntegrityError))"

text \<open>
  The database a caller sees after a call under \<open>@transaction.atomic\<close>: the one it
  passed in when the call raised, the updated one otherwise.
\<close>

definition committed :: "db \<Rightarrow> error + (db \<times> 'a) \<Rightarrow> db" where
  "committed s r = (case r of Inl e \<Rightarrow> s | Inr (s', x) \<Rightarrow> s')"

definition committed_reversal :: "db \<Rightarrow> error + db \<Rightarrow> db" where
  "committed_reversal s r = (case r of Inl e \<Rightarrow> s | Inr s' \<Rightarrow> s')"

section \<open>Request validation (inventory/serializers.py)\<close>

datatype validation_error =
    QtyNotPositive               \<comment> \<open>qty: Quantity must be positive.\<close>
  | InboundRequiresDestination   \<comment> \<open>to_location: INBOUND requires a destination.\<close>
  | OutboundRequiresSource       \<comment> \<open>from_location: OUTBOUND requires a source.\<close>
  | TransferRequiresBoth         \<comment> \<open>TRANSFER requires both source and destination.\<close>
  | SourceDestinationMustDiffer  \<comment> \<open>Source and destination must differ.\<close>

text \<open>
  \<open>StockMoveSerializer.validate\<close>: the four attributes it reads from \<open>attrs\<close>; on
  success \<open>attrs\<close> is returned as it came.
\<close>

definition StockMoveSerializer_validate ::
  "string \<Rightarrow> location_id option \<Rightarrow> location_id option \<Rightarrow> decimal option
    \<Rightarrow> validation_error + (string \<times> location_id option \<times> location_id option \<times> decimal option)" where
  "StockMoveSerializer_validate t from_loc to_loc qty =
     (if qty = None \<or> the qty \<le> 0 then Inl QtyNotPositive
      else if t = INBOUND \<and> to_loc = None then Inl InboundRequiresDestination
      else if t = OUTBOUND \<and> from_loc = None then Inl OutboundRequiresSource
      else if t = TRANSFER \<and> (from_loc = None \<or> to_loc = None) then Inl TransferRequiresBoth
      else if t = TRANSFER \<and> from_loc = to_loc then Inl SourceDestinationMustDiffer
      else Inr (t, from_loc, to_loc, qty))"

section \<open>Reorder suggestions (inventory/views.py)\<close>

text \<open>
  The two aggregates over the ledger, for one product: the quantities of the OUTBOUND
  moves, and of the lines of the OUTBOUND batches, with a timestamp from \<open>start\<close> on, and
  their \<open>Sum("qty")\<close>. The product has a row in an aggregate when it has a quantity
  there.
\<close>

definition single_outbound_rows :: "db \<Rightarrow> timestamp \<Rightarrow> product_id \<Rightarrow> decimal list" where
  "single_outbound_rows s start pid =
     map move_qty
       (filter (\<lambda>m. move_type m = OUTBOUND \<and> start \<le> move_timestamp m \<and> move_product m = pid)
          (stock_moves s))"

definition batched_outbound_rows :: "db \<Rightarrow> timestamp \<Rightarrow> product_id \<Rightarrow> decimal list" where
  "batched_outbound_rows s start pid =
     concat (map (\<lambda>b. map snd (filter (\<lambda>ln. fst ln = pid) (batch_lines b)))
       (filter (\<lambda>b. batch_type b = OUTBOUND \<and> start \<le> batch_timestamp b) (batches s)))"

definition single_outbound :: "db \<Rightarrow> timestamp \<Rightarrow> product_id \<Rightarrow> decimal" where
  "single_outbound s start pid = sum_list (single_outbound_rows s start pid)"

definition batched_outbound :: "db \<Rightarrow> timestamp \<Rightarrow> product_id \<Rightarrow> decimal" where
  "batched_outbound s start pid = sum_list (batched_outbound_rows s start pid)"

text \<open>\<open>Sum("on_hand")\<close> of the level rows of one product, over all locations.\<close>

definition on_hand_total :: "db \<Rightarrow> product_id \<Rightarrow> decimal" where
  "on_hand_total s pid = sum_list (map snd (filter (\<lambda>row. fst (fst row) = pid) (levels s)))"

text \<open>The body of the loop of \<open>ReorderSuggestionView.get\<close>, for one product.\<close>

definition avg_daily_demand :: "int \<Rightarrow> decimal \<Rightarrow> decimal" where
  "avg_daily_demand days total_out =
     (let days = (if days \<le> 0 then 1 else days) in quantize (total_out / of_int days))"

definition target_stock :: "int \<Rightarrow> decimal \<Rightarrow> decimal" where
  "target_stock coverage_days avg_daily = quantize (avg_daily * of_int coverage_days)"

record suggestion =
  sg_product :: product_id
  sg_avg_daily_demand :: decimal
  sg_on_hand_total :: decimal
  sg_suggested_qty :: decimal

definition suggestion_row ::
  "int \<Rightarrow> int \<Rightarrow> decimal \<Rightarrow> product_id \<Rightarrow> decimal \<Rightarrow> decimal \<Rightarrow> suggestion option" where
  "suggestion_row days coverage_days min_qty pid total_out on_hand_tot =
     (let avg_daily = avg_daily_demand days total_out;
          target = target_stock coverage_days avg_daily;
          suggested = target - on_hand_tot
      in if suggested < min_qty then None
         else if suggested \<le> 0 then None
         else Some \<lparr>sg_product = pid, sg_avg_daily_demand = avg_daily,
                     sg_on_hand_total = quantize on_hand_tot,
                     sg_suggested_qty = quantize suggested\<rparr>)"

text \<open>
  The row of one product from the ledger: \<open>start\<close> is \<open>now - timedelta(days=days)\<close>,
  timestamps counted in days. The loop visits the keys of \<open>totals\<close>, the products that
  have a row in one of the two aggregates; any other product gets no suggestion.
\<close>

definition reorder_suggestion ::
  "int \<Rightarrow> int \<Rightarrow> decimal \<Rightarrow> timestamp \<Rightarrow> db \<Rightarrow> product_id \<Rightarrow> suggestion option" where
  "reorder_suggestion days coverage_days min_qty now s pid =
     (let start = now - days in
      if single_outbound_rows s start pid = [] \<and> batched_outbound_rows s start pid = [] then None
      else
        let total_out = single_outbound s start pid + batched_outbound s start pid
        in suggestion_row days coverage_days min_qty pid total_out (on_hand_total s pid))"

text \<open>
  Rounding to two decimals with ties going up, the rule the specification calls
  standard rounding; it is compared with \<open>quantize\<close> below.
\<close>

definition quantize_half_up :: "decimal \<Rightarrow> decimal" where
  "quantize_half_up x = of_int \<lfloor>x * 100 + 1 / 2\<rfloor> / 100"

section \<open>Sequences of requests\<close>







section \<open>Auxiliary notions and example databases\<close>

text \<open>A balance row with this key exists.\<close>

definition has_row :: "db \<Rightarrow> product_id \<times> location_id \<Rightarrow> bool" where
  "has_row s k = (map_of (levels s) k \<noteq> None)"


text \<open>A quantity with at most two decimal places, as the columns hold it.\<close>

definition two_decimals :: "decimal \<Rightarrow> bool" where
  "two_decimals q = (quantize q = q)"


text \<open>Product 1 at location 1 with five units on hand, and nothing else.\<close>

definition main_5 :: db where
  "main_5 = \<lparr>levels = [((1, 1), 5)], stock_moves = [], batches = [], next_move_id = 1, next_batch_id = 1\<rparr>"


text \<open>Products 1 and 2, each with ten units at location 1.\<close>

definition two_products_10 :: db where
  "two_products_10 = \<lparr>levels = [((1, 1), 10), ((2, 1), 10)], stock_moves = [], batches = [],
      next_move_id = 1, next_batch_id = 1\<rparr>"

text \<open>
  A ledger at day 100. Within the last 14 days product 1 has one OUTBOUND move of 100 and
  one OUTBOUND batch line of 40; an older OUTBOUND move, an INBOUND move and the activity
  of product 2 do not count. Product 1 has 4 + 6 units on hand.
\<close>

definition ledger_140 :: db where
  "ledger_140 =
     \<lparr>levels = [((1, 1), 4), ((1, 2), 6), ((2, 1), 0)],
      stock_moves =
        [\<lparr>move_id = 1, move_type = INBOUND, move_product = 1, move_qty = 500,
           move_from = None, move_to = Some 1, move_timestamp = 70\<rparr>,
         \<lparr>move_id = 2, move_type = OUTBOUND, move_product = 1, move_qty = 50,
           move_from = Some 1, move_to = None, move_timestamp = 80\<rparr>,
         \<lparr>move_id = 3, move_type = OUTBOUND, move_product = 1, move_qty = 100,
           move_from = Some 1, move_to = None, move_timestamp = 90\<rparr>,
         \<lparr>move_id = 4, move_type = OUTBOUND, move_product = 2, move_qty = 7,
           move_from = Some 1, move_to = None, move_timestamp = 95\<rparr>],
      batches =
        [\<lparr>batch_id = 1, batch_type = OUTBOUND, batch_from = Some 1, batch_to = None,
           batch_timestamp = 99, batch_lines = [(1, 40), (2, 3)]\<rparr>],
      next_move_id = 5, next_batch_id = 2\<rparr>"

text \<open>
  \<open>y\<close> is \<open>x\<close> rounded to two decimals, a tie going to the even hundredth: \<open>y\<close> is a
  whole number of hundredths, at most half a hundredth from \<open>x\<close>, and even when exactly
  half a hundredth away.
\<close>

definition nearest_cent_ties_even :: "rat \<Rightarrow> rat \<Rightarrow> bool" where
  "nearest_cent_ties_even x y =
     (\<exists>n::int. y = of_int n / 100 \<and> \<bar>y - x\<bar> \<le> 1 / 200 \<and> (\<bar>y - x\<bar> = 1 / 200 \<longrightarrow> even n))"








section \<open>The ledger store: lemmas\<close>

lemma kinds_distinct:
  "INBOUND \<noteq> OUTBOUND" "INBOUND \<noteq> TRANSFER" "OUTBOUND \<noteq> TRANSFER"
  "OUTBOUND \<noteq> INBOUND" "TRANSFER \<noteq> INBOUND" "TRANSFER \<noteq> OUTBOUND"
  by (simp_all add: INBOUND_def OUTBOUND_def TRANSFER_def)

lemma get_level_fst: "fst (get_level_for_update p l s) = ((p, l), on_hand s (p, l))"
  by (simp add: get_level_for_update_def on_hand_def split: option.splits)

lemma get_level_on_hand: "on_hand (snd (get_level_for_update p l s)) k = on_hand s k"
  by (auto simp: get_level_for_update_def on_hand_def map_add_def split: option.splits)

lemma get_level_has_row: "has_row (snd (get_level_for_update p l s)) k = (k = (p, l) \<or> has_row s k)"
  by (auto simp: get_level_for_update_def has_row_def map_add_def split: option.splits)

lemma get_level_other:
  "stock_moves (snd (get_level_for_update p l s)) = stock_moves s"
  "batches (snd (get_level_for_update p l s)) = batches s"
  "next_move_id (snd (get_level_for_update p l s)) = next_move_id s"
  "next_batch_id (snd (get_level_for_update p l s)) = next_batch_id s"
  by (simp_all add: get_level_for_update_def split: option.splits)

lemma map_of_bump:
  "map_of (map (\<lambda>(k', v). if k' = k then (k', v + d) else (k', v)) xs) k' =
     (if k' = k then map_option (\<lambda>v. v + d) (map_of xs k') else map_of xs k')"
  by (induction xs) auto

lemma save_on_hand_on_hand:
  "on_hand (save_on_hand lvl d s) k =
     (if k = fst lvl \<and> has_row s k then on_hand s k + d else on_hand s k)"
  by (auto simp: save_on_hand_def on_hand_def map_of_bump has_row_def split: option.splits)

lemma save_on_hand_has_row: "has_row (save_on_hand lvl d s) k = has_row s k"
  by (auto simp: save_on_hand_def has_row_def map_of_bump)

lemma save_on_hand_other:
  "stock_moves (save_on_hand lvl d s) = stock_moves s"
  "batches (save_on_hand lvl d s) = batches s"
  "next_move_id (save_on_hand lvl d s) = next_move_id s"
  "next_batch_id (save_on_hand lvl d s) = next_batch_id s"
  by (simp_all add: save_on_hand_def)

lemma refresh_fst:
  "fst (refresh_from_db lvl s) = fst lvl"
  "snd (refresh_from_db lvl s) = on_hand s (fst lvl)"
  by (simp_all add: refresh_from_db_def)

lemma create_move_simps:
  "on_hand (fst (create_move ty p q lf lt ts s)) k = on_hand s k"
  "has_row (fst (create_move ty p q lf lt ts s)) k = has_row s k"
  "levels (fst (create_move ty p q lf lt ts s)) = levels s"
  "batches (fst (create_move ty p q lf lt ts s)) = batches s"
  "next_batch_id (fst (create_move ty p q lf lt ts s)) = next_batch_id s"
  "next_move_id (fst (create_move ty p q lf lt ts s)) = Suc (next_move_id s)"
  "stock_moves (fst (create_move ty p q lf lt ts s)) = stock_moves s @ [snd (create_move ty p q lf lt ts s)]"
  "snd (create_move ty p q lf lt ts s) = \<lparr>move_id = next_move_id s, move_type = ty, move_product = p,
       move_qty = q, move_from = lf, move_to = lt, move_timestamp = ts\<rparr>"
  by (simp_all add: create_move_def on_hand_def has_row_def Let_def)

lemma delete_move_simps:
  "on_hand (delete_move mv s) k = on_hand s k"
  "has_row (delete_move mv s) k = has_row s k"
  "levels (delete_move mv s) = levels s"
  "batches (delete_move mv s) = batches s"
  "next_batch_id (delete_move mv s) = next_batch_id s"
  "next_move_id (delete_move mv s) = next_move_id s"
  "stock_moves (delete_move mv s) = filter (\<lambda>m. move_id m \<noteq> move_id mv) (stock_moves s)"
  by (simp_all add: delete_move_def on_hand_def has_row_def)

lemma pair_eq_fst_snd: "(x = (a, b)) = (fst x = a \<and> snd x = b)"
  by auto

lemmas store_simps = get_level_fst get_level_on_hand get_level_has_row get_level_other
  save_on_hand_on_hand save_on_hand_has_row save_on_hand_other refresh_fst
  create_move_simps(1-7) delete_move_simps pair_eq_fst_snd


section \<open>Rounding to two decimals: lemmas\<close>

lemma round_half_even_near:
  "\<bar>of_int (round_half_even y) - y\<bar> \<le> 1 / 2"
  "\<bar>of_int (round_half_even y) - y\<bar> = 1 / 2 \<Longrightarrow> even (round_half_even y)"
proof -
  have a: "of_int \<lfloor>y\<rfloor> \<le> y" and b: "y < of_int \<lfloor>y\<rfloor> + 1"
    by linarith+
  show "\<bar>of_int (round_half_even y) - y\<bar> \<le> 1 / 2"
    using a b by (auto simp: round_half_even_def Let_def)
  show "\<bar>of_int (round_half_even y) - y\<bar> = 1 / 2 \<Longrightarrow> even (round_half_even y)"
    using a b by (auto simp: round_half_even_def Let_def split: if_splits)
qed

lemma quantize_nearest: "nearest_cent_ties_even x (quantize x)"
proof -
  let ?n = "round_half_even (x * 100)"
  have d: "quantize x - x = (of_int ?n - x * 100) / 100"
    by (simp add: quantize_def field_simps)
  have "\<bar>quantize x - x\<bar> = \<bar>of_int ?n - x * 100\<bar> / 100"
    unfolding d by simp
  then have e: "\<bar>quantize x - x\<bar> \<le> 1 / 200" "\<bar>quantize x - x\<bar> = 1 / 200 \<Longrightarrow> even ?n"
    using round_half_even_near [of "x * 100"] by auto
  show ?thesis
    unfolding nearest_cent_ties_even_def
    by (rule exI [of _ ?n]) (use e in \<open>simp add: quantize_def\<close>)
qed

lemma round_half_even_of_int: "round_half_even (of_int n) = n"
  by (simp add: round_half_even_def)

lemma quantize_cents: "quantize (of_int n / 100) = of_int n / 100"
  by (simp add: quantize_def round_half_even_of_int)

lemma quantize_is_cents: "\<exists>n::int. quantize x = of_int n / 100"
  by (auto simp: quantize_def)

lemma quantize_of_int: "quantize (of_int n) = of_int n"
  using quantize_cents [of "n * 100"] by simp

lemma quantize_numeral: "quantize (numeral k) = numeral k" "quantize 0 = 0" "quantize 1 = 1"
  using quantize_of_int [of "numeral k"] quantize_of_int [of 0] quantize_of_int [of 1] by simp_all



lemma two_decimals_zero: "two_decimals 0"
  by (simp add: two_decimals_def quantize_numeral)

section \<open>Single movements: theorems\<close>

text \<open>
  Claim C7. A single OUTBOUND movement of a positive quantity \<open>q\<close> from a source whose
  balance is below \<open>q\<close> fails with \<open>InsufficientStock\<close> and the database stays as it was;
  when the balance is at least \<open>q\<close> the movement succeeds, the source balance decreases
  by exactly \<open>q\<close> and no other balance changes.
\<close>

theorem outbound_checks_source:
  assumes "0 < q"
  shows "(on_hand s (p, f) < q \<longrightarrow>
            apply_stock_move OUTBOUND p (Some q) (Some f) to_location ts s = Inl InsufficientStock
          \<and> committed s (apply_stock_move OUTBOUND p (Some q) (Some f) to_location ts s) = s)
       \<and> (q \<le> on_hand s (p, f) \<longrightarrow>
            (\<exists>s' mv. apply_stock_move OUTBOUND p (Some q) (Some f) to_location ts s = Inr (s', mv)
               \<and> on_hand s' (p, f) = on_hand s (p, f) - q
               \<and> (\<forall>k. k \<noteq> (p, f) \<longrightarrow> on_hand s' k = on_hand s k)))"
  using assms
  by (simp add: apply_stock_move_def kinds_distinct split_def Let_def store_simps committed_def)

text \<open>
  The scenario of the specification: five on hand, OUTBOUND 6 fails and the balance is
  still 5; OUTBOUND 2 succeeds and leaves 3.
\<close>

theorem outbound_checks_source_witness:
  "(0::rat) < 6 \<and> on_hand main_5 (1, 1) < 6
   \<and> apply_stock_move OUTBOUND 1 (Some 6) (Some 1) None 0 main_5 = Inl InsufficientStock
   \<and> on_hand (committed main_5 (apply_stock_move OUTBOUND 1 (Some 6) (Some 1) None 0 main_5)) (1, 1) = 5
   \<and> (0::rat) < 2 \<and> 2 \<le> on_hand main_5 (1, 1)
   \<and> (\<exists>s' mv. apply_stock_move OUTBOUND 1 (Some 2) (Some 1) None 0 main_5 = Inr (s', mv)
         \<and> on_hand s' (1, 1) = 3)"
  using outbound_checks_source [of 6 main_5 1 1 None 0] outbound_checks_source [of 2 main_5 1 1 None 0]
  by (auto simp: on_hand_def main_5_def)

lemmas eval_defs = apply_stock_move_def reverse_stock_move_def get_level_for_update_def
  refresh_from_db_def save_on_hand_def create_move_def delete_move_def on_hand_def Let_def
  kinds_distinct

lemmas batch_eval_defs = apply_stock_batch_move_def reverse_stock_batch_move_def
  group_lines_by_product_def lock_level_def get_level_for_update_def refresh_from_db_def
  save_on_hand_def on_hand_def check_source_level_def add_to_level_def subtract_from_level_def
  move_between_levels_def check_level_refreshed_def create_batch_def delete_batch_def Let_def
  kinds_distinct quantize_numeral

text \<open>
  Claim C10. Reversing a recorded OUTBOUND move that has a source location checks no
  balance: in every database it succeeds, adds the quantity back to the source balance,
  changes no other balance and deletes the move. The reversals of INBOUND and TRANSFER
  moves check the destination balance and can fail, as they do on the empty database.
\<close>

theorem reverse_outbound_never_checks:
  assumes "move_type mv = OUTBOUND" and "move_from mv = Some f"
  shows "(\<exists>s'. reverse_stock_move mv s = Inr s'
            \<and> on_hand s' (move_product mv, f) = on_hand s (move_product mv, f) + move_qty mv
            \<and> (\<forall>k. k \<noteq> (move_product mv, f) \<longrightarrow> on_hand s' k = on_hand s k)
            \<and> stock_moves s' = filter (\<lambda>m. move_id m \<noteq> move_id mv) (stock_moves s))
       \<and> reverse_stock_move \<lparr>move_id = 1, move_type = INBOUND, move_product = 1, move_qty = 5,
            move_from = None, move_to = Some 1, move_timestamp = 0\<rparr> empty_db = Inl ReversalWouldGoNegative
       \<and> reverse_stock_move \<lparr>move_id = 1, move_type = TRANSFER, move_product = 1, move_qty = 5,
            move_from = Some 1, move_to = Some 2, move_timestamp = 0\<rparr> empty_db = Inl ReversalInsufficientAtDestination"
  using assms
  by (simp add: reverse_stock_move_def kinds_distinct split_def Let_def store_simps)
    (simp add: on_hand_def empty_db_def)

theorem reverse_outbound_never_checks_witness:
  "\<exists>s'. reverse_stock_move \<lparr>move_id = 7, move_type = OUTBOUND, move_product = 1, move_qty = 2,
            move_from = Some 1, move_to = None, move_timestamp = 0\<rparr> main_5 = Inr s'
        \<and> on_hand s' (1, 1) = 7"
  using reverse_outbound_never_checks [of "\<lparr>move_id = 7, move_type = OUTBOUND, move_product = 1, move_qty = 2,
            move_from = Some 1, move_to = None, move_timestamp = 0\<rparr>" 1 main_5]
  by (auto simp: on_hand_def main_5_def)




section \<open>Request validation: theorems\<close>

text \<open>
  Claim C8, as stated, fails: neither \<open>StockMoveSerializer.validate\<close> nor
  \<open>apply_stock_move\<close> forbids the other endpoint. An INBOUND request that carries a
  source passes validation and is applied.
\<close>

theorem inbound_with_source_accepted:
  "StockMoveSerializer_validate INBOUND (Some 2) (Some 1) (Some 3) = Inr (INBOUND, Some 2, Some 1, Some 3)
   \<and> apply_stock_move INBOUND 1 (Some 3) (Some 2) (Some 1) 0 empty_db =
       Inr (\<lparr>levels = [((1, 1), 3)],
              stock_moves = [\<lparr>move_id = 1, move_type = INBOUND, move_product = 1, move_qty = 3,
                               move_from = Some 2, move_to = Some 1, move_timestamp = 0\<rparr>],
              batches = [], next_move_id = 2, next_batch_id = 1\<rparr>,
            \<lparr>move_id = 1, move_type = INBOUND, move_product = 1, move_qty = 3,
               move_from = Some 2, move_to = Some 1, move_timestamp = 0\<rparr>)"
  by (simp add: StockMoveSerializer_validate_def eval_defs empty_db_def)

text \<open>
  Claim C8, amended. For a positive quantity, an INBOUND request without a destination
  and an OUTBOUND request without a source are rejected, by the serializer and by
  \<open>apply_stock_move\<close>, before any balance is touched. The other endpoint is not
  checked: with it the request passes validation, and \<open>apply_stock_move\<close> fails or
  succeeds as without it, with the same balance rows, and records the endpoint on the move
  as given.
\<close>

theorem required_endpoint_enforced:
  assumes "0 < q"
  shows "StockMoveSerializer_validate INBOUND lf None (Some q) = Inl InboundRequiresDestination
       \<and> apply_stock_move INBOUND p (Some q) lf None ts s = Inl MissingDestination
       \<and> StockMoveSerializer_validate OUTBOUND None lt (Some q) = Inl OutboundRequiresSource
       \<and> apply_stock_move OUTBOUND p (Some q) None lt ts s = Inl MissingSource
       \<and> StockMoveSerializer_validate INBOUND lf (Some t) (Some q) = Inr (INBOUND, lf, Some t, Some q)
       \<and> StockMoveSerializer_validate OUTBOUND (Some f) lt (Some q) = Inr (OUTBOUND, Some f, lt, Some q)
       \<and> map_sum id (\<lambda>r. (levels (fst r), move_from (snd r))) (apply_stock_move INBOUND p (Some q) lf (Some t) ts s)
           = map_sum id (\<lambda>r. (levels (fst r), lf)) (apply_stock_move INBOUND p (Some q) None (Some t) ts s)
       \<and> map_sum id (\<lambda>r. (levels (fst r), move_to (snd r))) (apply_stock_move OUTBOUND p (Some q) (Some f) lt ts s)
           = map_sum id (\<lambda>r. (levels (fst r), lt)) (apply_stock_move OUTBOUND p (Some q) (Some f) None ts s)"
  using assms
  by (simp add: StockMoveSerializer_validate_def apply_stock_move_def kinds_distinct split_def Let_def
        create_move_simps)

theorem required_endpoint_enforced_witness:
  "apply_stock_move INBOUND 1 (Some 3) (Some 2) None 0 empty_db = Inl MissingDestination
   \<and> apply_stock_move OUTBOUND 1 (Some 3) None (Some 2) 0 empty_db = Inl MissingSource
   \<and> StockMoveSerializer_validate INBOUND (Some 2) None (Some 3) = Inl InboundRequiresDestination
   \<and> StockMoveSerializer_validate OUTBOUND None (Some 2) (Some 3) = Inl OutboundRequiresSource"
  using required_endpoint_enforced [where q = 3 and lf = "Some 2" and lt = "Some 2" and p = 1 and ts = 0 and s = empty_db]
  by simp

section \<open>Batch reversal on two products\<close>

text \<open>
  Claim C1 at a batch of two products. From ten units each, an OUTBOUND batch of 4 and 6
  leaves 6 and 4. Its reversal adds both quantities to the balance of the first line's
  product: 16 and 4, where the balances before the application were 10 and 10.
\<close>

theorem batch_reversal_credits_first_product:
  "apply_stock_batch_move OUTBOUND (Some 1) None 0 [(1, 4), (2, 6)] two_products_10 =
     Inr (\<lparr>levels = [((1, 1), 6), ((2, 1), 4)], stock_moves = [],
            batches = [\<lparr>batch_id = 1, batch_type = OUTBOUND, batch_from = Some 1, batch_to = None,
                          batch_timestamp = 0, batch_lines = [(1, 4), (2, 6)]\<rparr>],
            next_move_id = 1, next_batch_id = 2\<rparr>,
          \<lparr>batch_id = 1, batch_type = OUTBOUND, batch_from = Some 1, batch_to = None,
             batch_timestamp = 0, batch_lines = [(1, 4), (2, 6)]\<rparr>)
   \<and> reverse_stock_batch_move
        \<lparr>batch_id = 1, batch_type = OUTBOUND, batch_from = Some 1, batch_to = None,
           batch_timestamp = 0, batch_lines = [(1, 4), (2, 6)]\<rparr>
        \<lparr>levels = [((1, 1), 6), ((2, 1), 4)], stock_moves = [],
           batches = [\<lparr>batch_id = 1, batch_type = OUTBOUND, batch_from = Some 1, batch_to = None,
                         batch_timestamp = 0, batch_lines = [(1, 4), (2, 6)]\<rparr>],
           next_move_id = 1, next_batch_id = 2\<rparr> =
     Inr \<lparr>levels = [((1, 1), 16), ((2, 1), 4)], stock_moves = [], batches = [],
            next_move_id = 1, next_batch_id = 2\<rparr>"
  by (simp add: batch_eval_defs two_products_10_def)

text \<open>
  Claim C2 at a batch of two products. On the empty database an INBOUND batch of 5 and 5
  gives two balances of 5. Its reversal checks the balance of the first line's product
  against each quantity on its own, then subtracts both from it: that balance becomes -5.
\<close>

theorem batch_reversal_goes_negative:
  "apply_stock_batch_move INBOUND None (Some 1) 0 [(1, 5), (2, 5)] empty_db =
     Inr (\<lparr>levels = [((1, 1), 5), ((2, 1), 5)], stock_moves = [],
            batches = [\<lparr>batch_id = 1, batch_type = INBOUND, batch_from = None, batch_to = Some 1,
                          batch_timestamp = 0, batch_lines = [(1, 5), (2, 5)]\<rparr>],
            next_move_id = 1, next_batch_id = 2\<rparr>,
          \<lparr>batch_id = 1, batch_type = INBOUND, batch_from = None, batch_to = Some 1,
             batch_timestamp = 0, batch_lines = [(1, 5), (2, 5)]\<rparr>)
   \<and> reverse_stock_batch_move
        \<lparr>batch_id = 1, batch_type = INBOUND, batch_from = None, batch_to = Some 1,
           batch_timestamp = 0, batch_lines = [(1, 5), (2, 5)]\<rparr>
        \<lparr>levels = [((1, 1), 5), ((2, 1), 5)], stock_moves = [],
           batches = [\<lparr>batch_id = 1, batch_type = INBOUND, batch_from = None, batch_to = Some 1,
                         batch_timestamp = 0, batch_lines = [(1, 5), (2, 5)]\<rparr>],
           next_move_id = 1, next_batch_id = 2\<rparr> =
     Inr \<lparr>levels = [((1, 1), - 5), ((2, 1), 5)], stock_moves = [], batches = [],
            next_move_id = 1, next_batch_id = 2\<rparr>
   \<and> on_hand \<lparr>levels = [((1, 1), - 5), ((2, 1), 5)], stock_moves = [], batches = [],
            next_move_id = 1, next_batch_id = 2\<rparr> (1, 1) < 0"
  by (simp add: batch_eval_defs empty_db_def)

section \<open>Reorder suggestions: theorems\<close>

text \<open>
  Claim C9, amended. For a window of \<open>W > 0\<close> days the average daily demand is the
  summed outbound quantity divided by \<open>W\<close> and rounded to two decimals, a tie going to
  the even hundredth; the target is the rounded average times \<open>C\<close>, rounded the same
  way; the suggestion is the target minus the on-hand total, which is exact when the
  on-hand total is a whole number of hundredths, and a row is emitted when it is positive
  and at least the threshold. 140 units over 14 days with coverage 7 and 10 on hand give
  10.00, 70.00 and 60.00, also when the 140 are a single move of 100 and a batch line of
  40. Rounding at each step differs from rounding at the end: 1 unit over 3 days with
  coverage 3 gives the target 0.99, not 1.00.
\<close>

theorem reorder_rounds_each_step:
  assumes "0 < days"
  shows "nearest_cent_ties_even (total_out / of_int days) (avg_daily_demand days total_out)
       \<and> nearest_cent_ties_even (avg_daily_demand days total_out * of_int coverage_days)
            (target_stock coverage_days (avg_daily_demand days total_out))
       \<and> suggestion_row days coverage_days min_qty pid total_out (of_int cents / 100) =
           (let avg_daily = avg_daily_demand days total_out;
                suggested = target_stock coverage_days avg_daily - of_int cents / 100
            in if suggested < min_qty \<or> suggested \<le> 0 then None
               else Some \<lparr>sg_product = pid, sg_avg_daily_demand = avg_daily,
                           sg_on_hand_total = of_int cents / 100, sg_suggested_qty = suggested\<rparr>)
       \<and> avg_daily_demand 14 140 = 10 \<and> target_stock 7 10 = 70
       \<and> suggestion_row 14 7 0 pid 140 10 =
            Some \<lparr>sg_product = pid, sg_avg_daily_demand = 10, sg_on_hand_total = 10, sg_suggested_qty = 60\<rparr>
       \<and> target_stock 3 (avg_daily_demand 3 1) = 99 / 100 \<and> quantize (1 / 3 * 3) = 1
       \<and> reorder_suggestion 14 7 0 100 ledger_140 1 =
            Some \<lparr>sg_product = 1, sg_avg_daily_demand = 10, sg_on_hand_total = 10, sg_suggested_qty = 60\<rparr>"
proof -
  have 1: "nearest_cent_ties_even (total_out / of_int days) (avg_daily_demand days total_out)"
    using assms by (simp add: avg_daily_demand_def quantize_nearest)
  have 2: "nearest_cent_ties_even (avg_daily_demand days total_out * of_int coverage_days)
            (target_stock coverage_days (avg_daily_demand days total_out))"
    by (simp add: target_stock_def quantize_nearest)
  obtain k :: int where k: "target_stock coverage_days (avg_daily_demand days total_out) = of_int k / 100"
    unfolding target_stock_def using quantize_is_cents by blast
  have s: "target_stock coverage_days (avg_daily_demand days total_out) - of_int cents / 100 = of_int (k - cents) / 100"
    by (simp add: k diff_divide_distrib)
  have 3: "suggestion_row days coverage_days min_qty pid total_out (of_int cents / 100) =
           (let avg_daily = avg_daily_demand days total_out;
                suggested = target_stock coverage_days avg_daily - of_int cents / 100
            in if suggested < min_qty \<or> suggested \<le> 0 then None
               else Some \<lparr>sg_product = pid, sg_avg_daily_demand = avg_daily,
                           sg_on_hand_total = of_int cents / 100, sg_suggested_qty = suggested\<rparr>)"
    unfolding suggestion_row_def Let_def s quantize_cents by simp
  have 4: "avg_daily_demand 14 140 = 10" "target_stock 7 10 = 70"
    "target_stock 3 (avg_daily_demand 3 1) = 99 / 100" "quantize (1 / 3 * 3) = 1"
    by code_simp+
  have q: "quantize 10 = 10" "quantize 60 = 60" by code_simp+
  have 5: "suggestion_row 14 7 0 pid 140 10 =
            Some \<lparr>sg_product = pid, sg_avg_daily_demand = 10, sg_on_hand_total = 10, sg_suggested_qty = 60\<rparr>"
    by (simp add: suggestion_row_def 4 q)
  have t: "single_outbound ledger_140 86 1 = 100" "batched_outbound ledger_140 86 1 = 40"
    "on_hand_total ledger_140 1 = 10"
    by (simp_all add: single_outbound_def batched_outbound_def single_outbound_rows_def
          batched_outbound_rows_def on_hand_total_def ledger_140_def kinds_distinct)
  have r: "single_outbound_rows ledger_140 86 1 \<noteq> []"
    by (simp add: single_outbound_rows_def ledger_140_def kinds_distinct)
  have 6: "reorder_suggestion 14 7 0 100 ledger_140 1 =
            Some \<lparr>sg_product = 1, sg_avg_daily_demand = 10, sg_on_hand_total = 10, sg_suggested_qty = 60\<rparr>"
    by (simp add: reorder_suggestion_def suggestion_row_def t r 4 q del: One_nat_def)
  show ?thesis using 1 2 3 4 5 6 by blast
qed

theorem reorder_rounds_each_step_witness:
  "(0::int) < 10 \<and> nearest_cent_ties_even (125 / 100 / of_int 10) (avg_daily_demand 10 (125 / 100))
   \<and> avg_daily_demand 10 (125 / 100) = 12 / 100"
proof -
  have "avg_daily_demand 10 (125 / 100) = 12 / 100" by code_simp
  then show ?thesis
    using reorder_rounds_each_step [where days = 10 and total_out = "125 / 100"] by simp
qed

text \<open>
  Claim C9, as stated, fails where the quotient is a tie: 1.25 units over 10 days is
  0.125 a day, which the code rounds to 0.12, while rounding with ties going up, the
  standard rounding of the claim, gives 0.13.
\<close>

theorem average_tie_rounds_to_even_not_up:
  "avg_daily_demand 10 (125 / 100) = 12 / 100 \<and> quantize_half_up (125 / 100 / 10) = 13 / 100"
  by code_simp

section \<open>Consolidation: lemmas\<close>















section \<open>Batches: lemmas and theorems\<close>

lemma lock_level_simps:
  "fst (lock_level pid loc s) = ((pid, loc), on_hand s (pid, loc))"
  "on_hand (snd (lock_level pid loc s)) k = on_hand s k"
  "has_row (snd (lock_level pid loc s)) k = (k = (pid, loc) \<or> has_row s k)"
  "stock_moves (snd (lock_level pid loc s)) = stock_moves s"
  "batches (snd (lock_level pid loc s)) = batches s"
  "next_move_id (snd (lock_level pid loc s)) = next_move_id s"
  "next_batch_id (snd (lock_level pid loc s)) = next_batch_id s"
  by (simp_all add: lock_level_def split_def refresh_from_db_def store_simps)




lemma lock_levels_map_of:
  "map_of (fst (lock_levels pids loc s)) pid =
     (if pid \<in> set pids then Some ((pid, loc), on_hand s (pid, loc)) else None)"
  by (induction pids arbitrary: s) (simp_all add: split_def Let_def lock_level_simps)

lemma check_source_loop_fails:
  assumes "\<forall>x\<in>set totals. map_of lvls (fst x) = Some (k (fst x), v (fst x))"
      and "\<exists>x\<in>set totals. v (fst x) < snd x"
  shows "\<exists>pid. for_items totals (check_source_level lvls) s = Inl (BatchInsufficientStock pid)"
  using assms
proof (induction totals)
  case Nil
  then show ?case by simp
next
  case (Cons x totals)
  obtain pid q where x: "x = (pid, q)" by (cases x)
  have m: "map_of lvls pid = Some (k pid, v pid)" using Cons.prems(1) x by simp
  show ?case
  proof (cases "v pid < q")
    case True
    then have "check_source_level lvls pid q s = Inl (BatchInsufficientStock pid)"
      by (simp add: check_source_level_def m)
    then show ?thesis by (simp add: x)
  next
    case False
    then have "\<exists>y\<in>set totals. v (fst y) < snd y" using Cons.prems(2) x by auto
    then have "\<exists>pid. for_items totals (check_source_level lvls) s = Inl (BatchInsufficientStock pid)"
      using Cons.IH Cons.prems(1) by simp
    moreover have "check_source_level lvls pid q s = Inr s"
      using False by (simp add: check_source_level_def m)
    ultimately show ?thesis by (simp add: x)
  qed
qed

lemma check_source_loop_passes:
  assumes "\<forall>x\<in>set totals. map_of lvls (fst x) = Some (k (fst x), v (fst x))"
      and "\<forall>x\<in>set totals. \<not> v (fst x) < snd x"
  shows "for_items totals (check_source_level lvls) s = Inr s"
  using assms
proof (induction totals)
  case Nil
  then show ?case by simp
next
  case (Cons x totals)
  obtain pid q where x: "x = (pid, q)" by (cases x)
  have "check_source_level lvls pid q s = Inr s"
    using Cons.prems x by (simp add: check_source_level_def)
  then show ?case using Cons by (simp add: x)
qed

text \<open>
  Claim C4. For an OUTBOUND or TRANSFER batch from a source, when one consolidated product
  has a source balance strictly below its consolidated quantity, the whole call fails: the
  caller's database is unchanged, so no balance is mutated and no batch or line is
  created. When the request is otherwise well-formed the failure is the insufficient-stock
  error of the batch.
\<close>

theorem infeasible_batch_fails_whole:
  assumes ty: "ty = OUTBOUND \<or> ty = TRANSFER"
      and g: "group_lines_by_product lines = Inr totals"
      and mem: "(pid, q) \<in> set totals"
      and low: "on_hand s (pid, f) < q"
  shows "(\<exists>e. apply_stock_batch_move ty (Some f) lt ts lines s = Inl e)
       \<and> committed s (apply_stock_batch_move ty (Some f) lt ts lines s) = s
       \<and> (ty = OUTBOUND \<or> (\<exists>t. lt = Some t \<and> t \<noteq> f) \<longrightarrow>
            (\<exists>pid'. apply_stock_batch_move ty (Some f) lt ts lines s = Inl (BatchInsufficientStock pid')))"
proof -
  let ?src = "lock_levels (map fst totals) f s"
  have m: "\<forall>x\<in>set totals. map_of (fst ?src) (fst x) = Some ((fst x, f), on_hand s (fst x, f))"
    by (simp add: lock_levels_map_of)
  have ex: "\<exists>x\<in>set totals. on_hand s (fst x, f) < snd x"
    using mem low by force
  have chk: "\<And>s'. \<exists>pid'. for_items totals (check_source_level (fst ?src)) s' = Inl (BatchInsufficientStock pid')"
    using check_source_loop_fails [of totals "fst ?src" "\<lambda>p. (p, f)" "\<lambda>p. on_hand s (p, f)"] m ex
    by blast
  have ne: "lines \<noteq> []" using g mem by (auto simp: group_lines_by_product_def)
  have valid: "ty = OUTBOUND \<or> (\<exists>t. lt = Some t \<and> t \<noteq> f) \<Longrightarrow>
      \<exists>pid'. apply_stock_batch_move ty (Some f) lt ts lines s = Inl (BatchInsufficientStock pid')"
  proof -
    assume a: "ty = OUTBOUND \<or> (\<exists>t. lt = Some t \<and> t \<noteq> f)"
    show ?thesis
    proof (cases "ty = OUTBOUND")
      case True
      obtain pid' where "for_items totals (check_source_level (fst ?src)) (snd ?src) = Inl (BatchInsufficientStock pid')"
        using chk by blast
      then show ?thesis
        using True g ne by (simp add: apply_stock_batch_move_def kinds_distinct split_def)
    next
      case False
      then have tr: "ty = TRANSFER" using ty by simp
      then obtain t where t: "lt = Some t" "t \<noteq> f" using a by (auto simp: kinds_distinct)
      obtain pid' where "for_items totals (check_source_level (fst ?src))
            (snd (lock_levels (map fst totals) t (snd ?src))) = Inl (BatchInsufficientStock pid')"
        using chk by blast
      then show ?thesis
        using tr t g ne by (simp add: apply_stock_batch_move_def kinds_distinct split_def)
    qed
  qed
  have fails: "\<exists>e. apply_stock_batch_move ty (Some f) lt ts lines s = Inl e"
  proof (cases "ty = OUTBOUND \<or> (\<exists>t. lt = Some t \<and> t \<noteq> f)")
    case True
    then show ?thesis using valid by blast
  next
    case False
    then have "ty = TRANSFER" "lt = None \<or> lt = Some f" using ty by (cases lt; auto)+
    then show ?thesis by (auto simp: apply_stock_batch_move_def kinds_distinct)
  qed
  then have "committed s (apply_stock_batch_move ty (Some f) lt ts lines s) = s"
    by (auto simp: committed_def)
  with fails valid show ?thesis by blast
qed

text \<open>
  The scenario of the specification: product 1 asks for 5 (feasible), product 2 for 1000
  (infeasible); both balances stay at 10 and no batch exists.
\<close>

theorem infeasible_batch_fails_whole_witness:
  "apply_stock_batch_move OUTBOUND (Some 1) None 0 [(1, 5), (2, 1000)] two_products_10 = Inl (BatchInsufficientStock 2)
   \<and> committed two_products_10
        (apply_stock_batch_move OUTBOUND (Some 1) None 0 [(1, 5), (2, 1000)] two_products_10) = two_products_10
   \<and> on_hand two_products_10 (1, 1) = 10 \<and> on_hand two_products_10 (2, 1) = 10 \<and> batches two_products_10 = []"
proof -
  have g: "group_lines_by_product [(1, 5), (2, 1000)] = Inr [(1, 5), (2, 1000)]"
    by (simp add: group_lines_by_product_def)
  have mem: "(2, 1000) \<in> set [(1::nat, 5::rat), (2, 1000)]" by simp
  have low: "on_hand two_products_10 (2, 1) < 1000"
    by (simp add: on_hand_def two_products_10_def)
  have e: "apply_stock_batch_move OUTBOUND (Some 1) None 0 [(1, 5), (2, 1000)] two_products_10 = Inl (BatchInsufficientStock 2)"
    by (simp add: batch_eval_defs two_products_10_def)
  have v: "on_hand two_products_10 (1, 1) = 10 \<and> on_hand two_products_10 (2, 1) = 10 \<and> batches two_products_10 = []"
    by (simp add: on_hand_def two_products_10_def)
  from infeasible_batch_fails_whole [OF _ g mem low, of OUTBOUND None 0] e v
  show ?thesis by simp
qed

section \<open>Effects of a request: lemmas\<close>























lemma for_items_unique:
  "for_items totals body s = Inr a \<Longrightarrow> for_items totals body s = Inr b \<Longrightarrow> a = b"
  by simp










section \<open>Consolidation and aggregate: theorems\<close>









end
